theory Spec2Isabelle
  imports Main "HOL-Library.Sublist"
begin

section \<open>Data model\<close>

text \<open>
  Go's \<^verbatim>\<open>error\<close> is an interface value. The delivery code of \<^verbatim>\<open>smtp.go\<close> never builds
  or inspects one: it hands back whatever \<^verbatim>\<open>Message.Bytes\<close> or \<^verbatim>\<open>net/smtp\<close> returned.
  \<open>LibraryError\<close> stands for an error value made by a library (\<^verbatim>\<open>net/smtp\<close>,
  \<^verbatim>\<open>crypto/tls\<close>, an \<^verbatim>\<open>io.Reader\<close>), with its message; the other constructors are the
  rendering errors named in section 4.1 of the specification.
\<close>

datatype error = MissingSender | AttachmentReadError | EncodingError | LibraryError string

text \<open>
  \<^verbatim>\<open>Attachment\<close>, as \<^verbatim>\<open>main_test.go\<close> lines 78-82 fill it. \<open>Data\<close> is an \<^verbatim>\<open>io.Reader\<close>;
  the model keeps what reading it to exhaustion gives: the bytes, or the reader's error.
\<close>

record attachment =
  Name :: string
  ContentType :: string
  Data :: "error + string"

text \<open>\<^verbatim>\<open>net/mail.Address\<close>: a display name and a mailbox.\<close>

record address =
  Name :: string
  Address :: string

text \<open>
  \<^verbatim>\<open>Message\<close>, with the fields that \<^verbatim>\<open>smtp.go\<close> (lines 42-54, 78) and \<^verbatim>\<open>main_test.go\<close>
  (lines 65-86) read and write. \<open>Body\<close> and \<open>HTMLBody\<close> are Go strings, so an unset body is
  the empty string; \<open>Headers\<close> is a \<^verbatim>\<open>mail.Header\<close>, a map from a header name to its values,
  kept as an association list.
\<close>

record message =
  From :: address
  To :: "address list"
  Cc :: "address list"
  Bcc :: "address list"
  Subject :: string
  Body :: string
  HTMLBody :: string
  Attachments :: "attachment list"
  Headers :: "(string \<times> string list) list"

text \<open>\<^verbatim>\<open>smtp.Auth\<close> and \<^verbatim>\<open>tls.Config\<close> are values of the standard library that the code only
  passes on; a nil interface or pointer is \<open>None\<close>.\<close>

datatype auth = PlainAuth string string string string

datatype tls_config = TLSConfig string

section \<open>The network, as \<^verbatim>\<open>smtp.go\<close> sees it\<close>

text \<open>
  Every call that \<^verbatim>\<open>smtp.go\<close> makes into \<^verbatim>\<open>net/smtp\<close> is an event, named after the call:
  \<^verbatim>\<open>smtp.Dial(addr)\<close>, \<^verbatim>\<open>c.Extension(ext)\<close>, \<^verbatim>\<open>c.StartTLS(cfg)\<close>, \<^verbatim>\<open>c.Auth(a)\<close>,
  \<^verbatim>\<open>c.Mail(from)\<close>, \<^verbatim>\<open>c.Rcpt(addr)\<close>, \<^verbatim>\<open>c.Data()\<close>, \<^verbatim>\<open>w.Write(msgBytes)\<close>, \<^verbatim>\<open>w.Close()\<close>,
  \<^verbatim>\<open>c.Quit()\<close>, the deferred \<^verbatim>\<open>c.Close()\<close>, and \<^verbatim>\<open>smtp.SendMail(addr, a, from, to, msg)\<close>.
  The state of a send is the list of the calls made so far, oldest first.
\<close>

datatype event =
    smtp_Dial string
  | c_Extension string
  | c_StartTLS "tls_config option"
  | c_Auth auth
  | c_Mail string
  | c_Rcpt string
  | c_Data
  | w_Write string
  | w_Close
  | c_Quit
  | c_Close
  | smtp_SendMail string "auth option" string "string list" string

text \<open>
  The server and the library are a parameter: \<open>reply n tr ev\<close> is the error that call \<open>ev\<close>
  returns after the calls \<open>tr\<close> (\<open>None\<close> for nil), and \<open>advertises n tr ext\<close> is the boolean
  that \<^verbatim>\<open>c.Extension(ext)\<close> returns after the calls \<open>tr\<close>.
\<close>

record network =
  reply :: "event list \<Rightarrow> event \<Rightarrow> error option"
  advertises :: "event list \<Rightarrow> string \<Rightarrow> bool"

type_synonym outcome = "event list \<times> error option"

definition call :: "network \<Rightarrow> event \<Rightarrow> event list \<Rightarrow> outcome" where
  "call n ev tr = (tr @ [ev], reply n tr ev)"

definition Extension :: "network \<Rightarrow> string \<Rightarrow> event list \<Rightarrow> event list \<times> bool" where
  "Extension n ext tr = (tr @ [c_Extension ext], advertises n tr ext)"

text \<open>\<^verbatim>\<open>if err != nil { return err }\<close> followed by the rest of the function body.\<close>

definition orReturn :: "outcome \<Rightarrow> (event list \<Rightarrow> outcome) \<Rightarrow> outcome" where
  "orReturn r rest = (case r of (tr, Some err) \<Rightarrow> (tr, Some err) | (tr, None) \<Rightarrow> rest tr)"

section \<open>Delivery: \<^verbatim>\<open>smtp.go\<close>\<close>

text \<open>\<^verbatim>\<open>for _, address := range xs { to = append(to, address.Address) }\<close>
  (lines 42-52 and 66-76).\<close>

fun appendAddresses :: "string list \<Rightarrow> address list \<Rightarrow> string list" where
  "appendAddresses to [] = to"
| "appendAddresses to (address # rest) = appendAddresses (to @ [Address address]) rest"

text \<open>\<^verbatim>\<open>for _, addr := range to { if err = c.Rcpt(addr); err != nil { return err } }\<close>
  (lines 104-108).\<close>

fun rcpt_loop :: "network \<Rightarrow> string list \<Rightarrow> event list \<Rightarrow> outcome" where
  "rcpt_loop n [] tr = (tr, None)"
| "rcpt_loop n (addr # rest) tr = orReturn (call n (c_Rcpt addr) tr) (rcpt_loop n rest)"

text \<open>
  \<^verbatim>\<open>SendMail\<close> (lines 35-55). \<^verbatim>\<open>msg.Bytes()\<close> is not defined in \<^verbatim>\<open>smtp.go\<close>; it is the
  parameter \<open>Bytes\<close>. The result is the calls made and the error returned.
\<close>

definition SendMail ::
  "network \<Rightarrow> (message \<Rightarrow> error + string) \<Rightarrow> string \<Rightarrow> auth option \<Rightarrow> message \<Rightarrow> outcome" where
  "SendMail n Bytes addr a msg =
     (case Bytes msg of
        Inl err \<Rightarrow> ([], Some err)
      | Inr msgBytes \<Rightarrow>
          (let to = [];
               to = appendAddresses to (To msg);
               to = appendAddresses to (Cc msg);
               to = appendAddresses to (Bcc msg)
           in call n (smtp_SendMail addr a (Address (From msg)) to msgBytes) []))"

text \<open>
  \<^verbatim>\<open>SendTLSMail\<close> (lines 59-126). After a successful dial, \<^verbatim>\<open>defer c.Close()\<close> makes
  \<^verbatim>\<open>c.Close()\<close> the last call on every path; its result is dropped.
\<close>

definition SendTLSMail ::
  "network \<Rightarrow> (message \<Rightarrow> error + string) \<Rightarrow> string \<Rightarrow> auth option \<Rightarrow> message \<Rightarrow>
     tls_config option \<Rightarrow> outcome" where
  "SendTLSMail n Bytes addr a msg cfg =
     (case Bytes msg of
        Inl err \<Rightarrow> ([], Some err)
      | Inr msgBytes \<Rightarrow>
          (let to = [];
               to = appendAddresses to (To msg);
               to = appendAddresses to (Cc msg);
               to = appendAddresses to (Bcc msg);
               from = Address (From msg)
           in case call n (smtp_Dial addr) [] of
                (tr, Some err) \<Rightarrow> (tr, Some err)
              | (tr, None) \<Rightarrow>
                  (let (tr, err) =
                     orReturn
                       (let (tr, ok) = Extension n ''STARTTLS'' tr
                        in if ok then call n (c_StartTLS cfg) tr else (tr, None)) (\<lambda>tr.
                     orReturn
                       (case a of
                          None \<Rightarrow> (tr, None)
                        | Some a' \<Rightarrow>
                            (let (tr, ok) = Extension n ''AUTH'' tr
                             in if ok then call n (c_Auth a') tr else (tr, None))) (\<lambda>tr.
                     orReturn (call n (c_Mail from) tr) (\<lambda>tr.
                     orReturn (rcpt_loop n to tr) (\<lambda>tr.
                     orReturn (call n c_Data tr) (\<lambda>tr.
                     orReturn (call n (w_Write msgBytes) tr) (\<lambda>tr.
                     orReturn (call n w_Close tr) (\<lambda>tr.
                     call n c_Quit tr)))))))
                   in (tr @ [c_Close], err))))"

text \<open>\<^verbatim>\<open>smtpSender\<close> and its method \<^verbatim>\<open>SendMail\<close> (lines 8-19), \<^verbatim>\<open>NewSMTPSender\<close>
  (lines 23-29).\<close>

record smtpSender =
  addr :: string
  auth :: "auth option"
  tlsCfg :: "tls_config option"

definition smtpSender_SendMail ::
  "network \<Rightarrow> (message \<Rightarrow> error + string) \<Rightarrow> smtpSender \<Rightarrow> message \<Rightarrow> outcome" where
  "smtpSender_SendMail n Bytes s msg =
     (if tlsCfg s = None then SendMail n Bytes (addr s) (auth s) msg
      else SendTLSMail n Bytes (addr s) (auth s) msg (tlsCfg s))"

definition NewSMTPSender :: "string \<Rightarrow> auth option \<Rightarrow> tls_config option \<Rightarrow> smtpSender" where
  "NewSMTPSender addr' auth' tlsCfg' = \<lparr>addr = addr', auth = auth', tlsCfg = tlsCfg'\<rparr>"

section \<open>Auxiliary definitions\<close>

text \<open>
  The error that the code looks at after a call: \<^verbatim>\<open>c.Extension\<close> returns no error that is
  read (line 86 and 93 drop its second result), and the result of the deferred
  \<^verbatim>\<open>c.Close()\<close> is dropped.
\<close>

fun answered :: "network \<Rightarrow> event list \<Rightarrow> event \<Rightarrow> error option" where
  "answered n tr (c_Extension ext) = None"
| "answered n tr c_Close = None"
| "answered n tr ev = reply n tr ev"

text \<open>Making a list of calls one after the other, up to the first one that returns an error.\<close>

fun run :: "network \<Rightarrow> event list \<Rightarrow> event list \<Rightarrow> outcome" where
  "run n tr [] = (tr, None)"
| "run n tr (ev # evs) =
     (case answered n tr ev of
        Some err \<Rightarrow> (tr @ [ev], Some err)
      | None \<Rightarrow> run n (tr @ [ev]) evs)"

text \<open>The calls that \<^verbatim>\<open>SendTLSMail\<close> makes between the dial and the deferred close when
  none of them returns an error.\<close>

definition script ::
  "network \<Rightarrow> string \<Rightarrow> auth option \<Rightarrow> tls_config option \<Rightarrow> string \<Rightarrow> string list \<Rightarrow> string \<Rightarrow>
     event list" where
  "script n host a cfg from to msgBytes =
     (let tls = c_Extension ''STARTTLS'' #
                  (if advertises n [smtp_Dial host] ''STARTTLS'' then [c_StartTLS cfg] else []);
          au = (case a of
                  None \<Rightarrow> []
                | Some a' \<Rightarrow>
                    c_Extension ''AUTH'' #
                      (if advertises n (smtp_Dial host # tls) ''AUTH'' then [c_Auth a'] else []))
      in tls @ au @ [c_Mail from] @ map c_Rcpt to @ [c_Data, w_Write msgBytes, w_Close, c_Quit])"

fun is_Rcpt :: "event \<Rightarrow> bool" where
  "is_Rcpt (c_Rcpt rcpt) = True"
| "is_Rcpt ev = False"

text \<open>Concrete values for the examples: a message with one recipient of each kind, a server
  that accepts everything and advertises both extensions, and one that rejects the second
  recipient.\<close>

definition example_message :: message where
  "example_message =
     \<lparr>From = \<lparr>Name = ''Doman Sender'', Address = ''sender@domain.com''\<rparr>,
      To = [\<lparr>Name = ''First person'', Address = ''to_1@domain.com''\<rparr>],
      Cc = [\<lparr>Name = ''Second person'', Address = ''cc_1@domain.com''\<rparr>],
      Bcc = [\<lparr>Name = ''Third person'', Address = ''bcc_1@domain.com''\<rparr>],
      Subject = ''My Subject'', Body = ''hello'', HTMLBody = '''',
      Attachments = [], Headers = []\<rparr>"

definition accepting :: network where
  "accepting = \<lparr>reply = (\<lambda>tr ev. None), advertises = (\<lambda>tr ext. True)\<rparr>"

definition rejecting :: network where
  "rejecting =
     \<lparr>reply = (\<lambda>tr ev. if ev = c_Rcpt ''cc_1@domain.com''
                          then Some (LibraryError ''550 mailbox unavailable'') else None),
      advertises = (\<lambda>tr ext. False)\<rparr>"

section \<open>Lemmas about the delivery code\<close>

lemma appendAddresses_eq: "appendAddresses to as = to @ map Address as"
  by (induction as arbitrary: to) simp_all

lemma flattened:
  "appendAddresses (appendAddresses (appendAddresses [] xs) ys) zs =
     map Address xs @ map Address ys @ map Address zs"
  by (simp add: appendAddresses_eq)

lemma orReturn_None [simp]: "orReturn (tr, None) rest = rest tr"
  by (simp add: orReturn_def)

lemma orReturn_Some [simp]: "orReturn (tr, Some err) rest = (tr, Some err)"
  by (simp add: orReturn_def)

lemma run_None: "run n tr evs = (tr', None) \<Longrightarrow> tr' = tr @ evs"
proof (induction evs arbitrary: tr)
  case Nil
  then show ?case by simp
next
  case (Cons ev evs)
  from Cons.prems have "run n (tr @ [ev]) evs = (tr', None)"
    by (cases "answered n tr ev") auto
  then have "tr' = (tr @ [ev]) @ evs"
    by (rule Cons.IH)
  then show ?case by simp
qed

lemma run_append: "run n tr (xs @ ys) = orReturn (run n tr xs) (\<lambda>tr'. run n tr' ys)"
  by (induction xs arbitrary: tr) (auto split: option.splits)

lemma rcpt_loop_run: "rcpt_loop n to tr = run n tr (map c_Rcpt to)"
  by (induction to arbitrary: tr) (auto simp: call_def split: option.splits)

lemma envelope_data_run:
  "orReturn (call n (c_Mail from) tr) (\<lambda>tr.
   orReturn (rcpt_loop n to tr) (\<lambda>tr.
   orReturn (call n c_Data tr) (\<lambda>tr.
   orReturn (call n (w_Write b) tr) (\<lambda>tr.
   orReturn (call n w_Close tr) (\<lambda>tr.
   call n c_Quit tr))))) =
   run n tr ([c_Mail from] @ map c_Rcpt to @ [c_Data, w_Write b, w_Close, c_Quit])"
  by (auto simp: call_def run_append rcpt_loop_run orReturn_def split: option.splits prod.splits)

text \<open>After a successful rendering and dial, \<^verbatim>\<open>SendTLSMail\<close> makes the calls of \<open>script\<close> up
  to the first error, and then the deferred close.\<close>

lemma SendTLSMail_run:
  assumes "Bytes msg = Inr b" and "reply n [] (smtp_Dial host) = None"
  shows "SendTLSMail n Bytes host a msg cfg =
           (let (tr, err) = run n [smtp_Dial host]
              (script n host a cfg (Address (From msg))
                 (map Address (To msg) @ map Address (Cc msg) @ map Address (Bcc msg)) b)
            in (tr @ [c_Close], err))"
proof -
  have "SendTLSMail n Bytes host a msg cfg =
    (let (tr, err) =
       orReturn
         (let (tr, ok) = Extension n ''STARTTLS'' [smtp_Dial host]
          in if ok then call n (c_StartTLS cfg) tr else (tr, None)) (\<lambda>tr.
       orReturn
         (case a of
            None \<Rightarrow> (tr, None)
          | Some a' \<Rightarrow>
              (let (tr, ok) = Extension n ''AUTH'' tr
               in if ok then call n (c_Auth a') tr else (tr, None))) (\<lambda>tr.
       run n tr ([c_Mail (Address (From msg))] @
         map c_Rcpt (map Address (To msg) @ map Address (Cc msg) @ map Address (Bcc msg)) @
         [c_Data, w_Write b, w_Close, c_Quit])))
     in (tr @ [c_Close], err))"
  proof -
    have dial: "call n (smtp_Dial host) [] = ([smtp_Dial host], None)"
      using assms(2) by (simp add: call_def)
    show ?thesis
      by (simp add: SendTLSMail_def Let_def flattened envelope_data_run dial assms(1)
          del: run.simps map_append)
  qed
  also have "\<dots> = (let (tr, err) = run n [smtp_Dial host]
              (script n host a cfg (Address (From msg))
                 (map Address (To msg) @ map Address (Cc msg) @ map Address (Bcc msg)) b)
            in (tr @ [c_Close], err))"
    by (cases a; cases "advertises n [smtp_Dial host] ''STARTTLS''")
      (auto simp: script_def call_def Extension_def run_append orReturn_def Let_def
        split: option.splits prod.splits)
  finally show ?thesis .
qed

lemma run_extends: "prefix tr (fst (run n tr evs))"
proof (induction evs arbitrary: tr)
  case Nil
  then show ?case by simp
next
  case (Cons ev evs)
  have "prefix (tr @ [ev]) (fst (run n (tr @ [ev]) evs))"
    by (rule Cons.IH)
  then have "prefix tr (fst (run n (tr @ [ev]) evs))"
    by (rule append_prefixD)
  then show ?case
    by (cases "answered n tr ev") auto
qed

lemma run_take: "\<exists>k\<le>length evs. fst (run n tr evs) = tr @ take k evs"
proof (induction evs arbitrary: tr)
  case Nil
  then show ?case by simp
next
  case (Cons ev evs)
  show ?case
  proof (cases "answered n tr ev")
    case None
    from Cons.IH [of "tr @ [ev]"] obtain k where
      "k \<le> length evs" "fst (run n (tr @ [ev]) evs) = (tr @ [ev]) @ take k evs"
      by blast
    with None have "Suc k \<le> length (ev # evs) \<and>
        fst (run n tr (ev # evs)) = tr @ take (Suc k) (ev # evs)"
      by simp
    then show ?thesis by blast
  next
    case (Some err)
    then have "Suc 0 \<le> length (ev # evs) \<and>
        fst (run n tr (ev # evs)) = tr @ take (Suc 0) (ev # evs)"
      by simp
    then show ?thesis by blast
  qed
qed

lemma run_set: "set (fst (run n tr evs)) \<subseteq> set tr \<union> set evs"
proof -
  obtain k where "fst (run n tr evs) = tr @ take k evs"
    using run_take by blast
  then show ?thesis
    using set_take_subset [of k evs] by auto
qed

lemma script_set:
  "set (script n host a cfg from to b) \<subseteq>
     {c_Extension ''STARTTLS'', c_StartTLS cfg, c_Extension ''AUTH'', c_Mail from,
      c_Data, w_Write b, w_Close, c_Quit} \<union> c_Auth ` set_option a \<union> c_Rcpt ` set to"
  by (auto simp: script_def Let_def split: option.splits if_splits)

lemma SendTLSMail_set:
  assumes "SendTLSMail n Bytes host a msg cfg = (tr, r)" and "Bytes msg = Inr b"
  shows "set tr \<subseteq> {smtp_Dial host, c_Close} \<union>
           set (script n host a cfg (Address (From msg))
             (map Address (To msg) @ map Address (Cc msg) @ map Address (Bcc msg)) b)"
proof (cases "reply n [] (smtp_Dial host)")
  case None
  let ?s = "script n host a cfg (Address (From msg))
    (map Address (To msg) @ map Address (Cc msg) @ map Address (Bcc msg)) b"
  obtain tr0 r0 where run: "run n [smtp_Dial host] ?s = (tr0, r0)"
    by (cases "run n [smtp_Dial host] ?s")
  with assms None have "tr = tr0 @ [c_Close]"
    by (simp add: SendTLSMail_run)
  moreover have "set tr0 \<subseteq> set [smtp_Dial host] \<union> set ?s"
    using run_set [of n "[smtp_Dial host]" ?s] run by simp
  ultimately show ?thesis by auto
next
  case (Some e)
  with assms show ?thesis
    by (auto simp: SendTLSMail_def call_def Let_def)
qed

section \<open>Claims\<close>

text \<open>
  Claim C6. The message is rendered in full before any call into the network: when
  \<open>Bytes\<close> fails, \<^verbatim>\<open>SendTLSMail\<close> and \<^verbatim>\<open>SendMail\<close> return that error and make no call at all (no
  dial); when it succeeds with the buffer \<open>b\<close>, every \<^verbatim>\<open>w.Write\<close> of \<^verbatim>\<open>SendTLSMail\<close> writes
  exactly \<open>b\<close> and \<^verbatim>\<open>SendMail\<close> hands exactly \<open>b\<close> to \<^verbatim>\<open>smtp.SendMail\<close>; and a send that
  made any call had a successful rendering.
\<close>

theorem rendered_before_network:
  assumes "SendTLSMail n Bytes host a msg cfg = (tr, r)"
    and "SendMail n Bytes host a msg = (tr', r')"
  shows "(\<forall>err. Bytes msg = Inl err \<longrightarrow> tr = [] \<and> r = Some err \<and> tr' = [] \<and> r' = Some err) \<and>
         (\<forall>b. Bytes msg = Inr b \<longrightarrow>
            (\<forall>x. w_Write x \<in> set tr \<longrightarrow> x = b) \<and>
            (\<exists>to. tr' = [smtp_SendMail host a (Address (From msg)) to b])) \<and>
         (tr \<noteq> [] \<or> tr' \<noteq> [] \<longrightarrow> (\<exists>b. Bytes msg = Inr b))"
proof (cases "Bytes msg")
  case (Inl err)
  with assms show ?thesis
    by (simp add: SendTLSMail_def SendMail_def)
next
  case (Inr b)
  have "\<forall>x. w_Write x \<in> set tr \<longrightarrow> x = b"
    using SendTLSMail_set [OF assms(1) Inr] script_set [of n host a cfg _ _ b]
    by auto
  moreover have "\<exists>to. tr' = [smtp_SendMail host a (Address (From msg)) to b]"
    using assms(2) Inr by (auto simp: SendMail_def call_def Let_def)
  ultimately show ?thesis
    using Inr by simp
qed

theorem rendered_before_network_witness:
  "SendTLSMail accepting (\<lambda>m. Inr (Body m)) ''mail.domain.com:25'' None example_message None =
     ([smtp_Dial ''mail.domain.com:25'', c_Extension ''STARTTLS'', c_StartTLS None,
       c_Mail ''sender@domain.com'', c_Rcpt ''to_1@domain.com'', c_Rcpt ''cc_1@domain.com'',
       c_Rcpt ''bcc_1@domain.com'', c_Data, w_Write ''hello'', w_Close, c_Quit, c_Close], None) \<and>
   SendMail accepting (\<lambda>m. Inr (Body m)) ''mail.domain.com:25'' None example_message =
     ([smtp_SendMail ''mail.domain.com:25'' None ''sender@domain.com''
         [''to_1@domain.com'', ''cc_1@domain.com'', ''bcc_1@domain.com''] ''hello''], None) \<and>
   SendTLSMail accepting (\<lambda>m. Inl MissingSender) ''mail.domain.com:25'' None example_message None =
     ([], Some MissingSender) \<and>
   SendMail accepting (\<lambda>m. Inl MissingSender) ''mail.domain.com:25'' None example_message =
     ([], Some MissingSender)"
proof -
  let ?tr = "[smtp_Dial ''mail.domain.com:25'', c_Extension ''STARTTLS'', c_StartTLS None,
       c_Mail ''sender@domain.com'', c_Rcpt ''to_1@domain.com'', c_Rcpt ''cc_1@domain.com'',
       c_Rcpt ''bcc_1@domain.com'', c_Data, w_Write ''hello'', w_Close, c_Quit, c_Close]"
  have tls: "SendTLSMail accepting (\<lambda>m. Inr (Body m)) ''mail.domain.com:25'' None
      example_message None = (?tr, None)"
    by (simp add: SendTLSMail_def example_message_def accepting_def call_def Extension_def)
  have plain: "SendMail accepting (\<lambda>m. Inr (Body m)) ''mail.domain.com:25'' None example_message =
     ([smtp_SendMail ''mail.domain.com:25'' None ''sender@domain.com''
         [''to_1@domain.com'', ''cc_1@domain.com'', ''bcc_1@domain.com''] ''hello''], None)"
    by (simp add: SendMail_def example_message_def accepting_def call_def)
  have body: "(\<lambda>m. Inr (Body m) :: error + string) example_message = Inr ''hello''"
    by (simp add: example_message_def)
  from rendered_before_network [OF tls plain] body
  have written: "\<forall>x. w_Write x \<in> set ?tr \<longrightarrow> x = ''hello''"
    by blast
  obtain tr r tr' r' where
    failed: "SendTLSMail accepting (\<lambda>m. Inl MissingSender) ''mail.domain.com:25'' None
      example_message None = (tr, r)"
      "SendMail accepting (\<lambda>m. Inl MissingSender) ''mail.domain.com:25'' None example_message =
        (tr', r')"
    by (metis surj_pair)
  from rendered_before_network [OF failed]
  have "tr = [] \<and> r = Some MissingSender \<and> tr' = [] \<and> r' = Some MissingSender"
    by simp
  with failed tls plain written show ?thesis
    by simp
qed

end
